theory Spec2Isabelle
  imports Main "HOL-Library.Word" "HOL-Library.Sublist"
begin

unbundle bit_operations_syntax

section \<open>llama\_weight\_convert.py: the name map and the archive writer\<close>

text \<open>
  The module has one function, \<open>reformat_quantized(params, num_layers, output_file,
  downcast)\<close>. Lines 20--51 build \<open>paramlist\<close>, a list of 4-tuples
  \<open>(param, oparam, castable, optional)\<close>; lines 52--74 walk that list inside
  \<open>with zipfile.ZipFile(...) as outfile\<close> and write one archive member per tuple.
\<close>

subsection \<open>Decimal formatting (\<open>'%d' % layer\<close>)\<close>

text \<open>
  \<open>layer\<close> ranges over \<open>range(num_layers)\<close>, so it is never negative and
  \<open>'%d' % layer\<close> is its decimal numeral without sign or padding.
\<close>

definition digit_char :: "nat \<Rightarrow> char" where
  "digit_char d = ''0123456789'' ! d"

fun str_nat :: "nat \<Rightarrow> string" where
  "str_nat n = (if n < 10 then [digit_char n]
                else str_nat (n div 10) @ [digit_char (n mod 10)])"

declare str_nat.simps [simp del]

definition is_digit :: "char \<Rightarrow> bool" where
  "is_digit c = (c \<in> set ''0123456789'')"

subsection \<open>The name map (lines 20--51)\<close>

type_synonym entry = "string \<times> string \<times> bool \<times> bool"

definition param_of :: "entry \<Rightarrow> string" where
  "param_of e = (case e of (param, oparam, castable, optional) \<Rightarrow> param)"

definition oparam_of :: "entry \<Rightarrow> string" where
  "oparam_of e = (case e of (param, oparam, castable, optional) \<Rightarrow> oparam)"

definition castable_of :: "entry \<Rightarrow> bool" where
  "castable_of e = (case e of (param, oparam, castable, optional) \<Rightarrow> castable)"

definition optional_of :: "entry \<Rightarrow> bool" where
  "optional_of e = (case e of (param, oparam, castable, optional) \<Rightarrow> optional)"

definition prefix0 :: string where
  "prefix0 = ''model.layers.''"

text \<open>Lines 24--35: the twelve appends for the attention projections of one layer.\<close>

definition attn_entries :: "nat \<Rightarrow> entry list" where
  "attn_entries layer =
    [(prefix0 @ str_nat layer @ ''.self_attn.q_proj.qweight'', ''dec'' @ str_nat layer @ ''att.query.weights'', False, False),
     (prefix0 @ str_nat layer @ ''.self_attn.q_proj.scales'', ''dec'' @ str_nat layer @ ''att.query.scales'', False, False),
     (prefix0 @ str_nat layer @ ''.self_attn.q_proj.qzeros'', ''dec'' @ str_nat layer @ ''att.query.zeros'', False, False),
     (prefix0 @ str_nat layer @ ''.self_attn.k_proj.qweight'', ''dec'' @ str_nat layer @ ''att.key.weights'', False, False),
     (prefix0 @ str_nat layer @ ''.self_attn.k_proj.scales'', ''dec'' @ str_nat layer @ ''att.key.scales'', False, False),
     (prefix0 @ str_nat layer @ ''.self_attn.k_proj.qzeros'', ''dec'' @ str_nat layer @ ''att.key.zeros'', False, False),
     (prefix0 @ str_nat layer @ ''.self_attn.v_proj.qweight'', ''dec'' @ str_nat layer @ ''att.value.weights'', False, False),
     (prefix0 @ str_nat layer @ ''.self_attn.v_proj.scales'', ''dec'' @ str_nat layer @ ''att.value.scales'', False, False),
     (prefix0 @ str_nat layer @ ''.self_attn.v_proj.qzeros'', ''dec'' @ str_nat layer @ ''att.value.zeros'', False, False),
     (prefix0 @ str_nat layer @ ''.self_attn.o_proj.qweight'', ''dec'' @ str_nat layer @ ''att.out.weights'', False, False),
     (prefix0 @ str_nat layer @ ''.self_attn.o_proj.scales'', ''dec'' @ str_nat layer @ ''att.out.scales'', False, False),
     (prefix0 @ str_nat layer @ ''.self_attn.o_proj.qzeros'', ''dec'' @ str_nat layer @ ''att.out.zeros'', False, False)]"

text \<open>Lines 36--47: the twelve appends for the MLP projections of one layer.\<close>

definition mlp_entries :: "nat \<Rightarrow> entry list" where
  "mlp_entries layer =
    [(prefix0 @ str_nat layer @ ''.mlp.gate_proj.qweight'', ''dec'' @ str_nat layer @ ''gate.weights'', False, False),
     (prefix0 @ str_nat layer @ ''.mlp.gate_proj.bias'', ''dec'' @ str_nat layer @ ''gate.bias'', False, True),
     (prefix0 @ str_nat layer @ ''.mlp.gate_proj.scales'', ''dec'' @ str_nat layer @ ''gate.scales'', False, False),
     (prefix0 @ str_nat layer @ ''.mlp.gate_proj.qzeros'', ''dec'' @ str_nat layer @ ''gate.zeros'', False, False),
     (prefix0 @ str_nat layer @ ''.mlp.up_proj.qweight'', ''dec'' @ str_nat layer @ ''up.weights'', False, False),
     (prefix0 @ str_nat layer @ ''.mlp.up_proj.bias'', ''dec'' @ str_nat layer @ ''up.bias'', False, True),
     (prefix0 @ str_nat layer @ ''.mlp.up_proj.scales'', ''dec'' @ str_nat layer @ ''up.scales'', False, False),
     (prefix0 @ str_nat layer @ ''.mlp.up_proj.qzeros'', ''dec'' @ str_nat layer @ ''up.zeros'', False, False),
     (prefix0 @ str_nat layer @ ''.mlp.down_proj.qweight'', ''dec'' @ str_nat layer @ ''down.weights'', False, True),
     (prefix0 @ str_nat layer @ ''.mlp.down_proj.bias'', ''dec'' @ str_nat layer @ ''down.bias'', False, True),
     (prefix0 @ str_nat layer @ ''.mlp.down_proj.scales'', ''dec'' @ str_nat layer @ ''down.scales'', False, False),
     (prefix0 @ str_nat layer @ ''.mlp.down_proj.qzeros'', ''dec'' @ str_nat layer @ ''down.zeros'', False, False)]"

text \<open>Lines 48--49: the two layer-norm appends of one layer.\<close>

definition ln_entries :: "nat \<Rightarrow> entry list" where
  "ln_entries layer =
    [(prefix0 @ str_nat layer @ ''.input_layernorm.weight'', ''dec'' @ str_nat layer @ ''ln0.weights'', True, False),
     (prefix0 @ str_nat layer @ ''.post_attention_layernorm.weight'', ''dec'' @ str_nat layer @ ''ln1.weights'', True, False)]"

text \<open>One iteration of the loop of line 23 appends the 26 tuples in source order.\<close>

definition layer_entries :: "nat \<Rightarrow> entry list" where
  "layer_entries layer = attn_entries layer @ mlp_entries layer @ ln_entries layer"

text \<open>
  \<open>num_layers\<close> is a Python int; \<open>range(num_layers)\<close> is empty when it is not
  positive, which is \<open>[0..<nat num_layers]\<close>.
\<close>

definition paramlist :: "int \<Rightarrow> entry list" where
  "paramlist num_layers =
     [(''model.embed_tokens.weight'', ''embedding.embed'', True, False)]
     @ concat (map layer_entries [0..<nat num_layers])
     @ [(''model.norm.weight'', ''modelnorm.weights'', True, False),
        (''lm_head.weight'', ''tokenscoring.embed'', True, False)]"




subsection \<open>Tensors\<close>

text \<open>
  The function reads three things of a tensor: \<open>tensor.dtype\<close>,
  \<open>tensor.to(torch.float16)\<close> and \<open>tensor.numpy().tobytes()\<close>. A tensor is
  modelled by its element type and its elements in row-major order, each element being
  the bit pattern of its stored value (the low \<open>itemsize\<close> bytes of a 64-bit word).
  The element types are the real-valued torch dtypes of at most eight bytes. Tensors are
  taken to be on the CPU and detached, as the tensors of a loaded state dictionary are, so
  that \<open>numpy()\<close> does not raise; errors of the file system while the archive is
  written are outside the model as well.
\<close>

datatype dtype = Float32 | Float16 | Int32 | Float64 | BFloat16 | Int64 | Int16 | Int8 | UInt8 | Bool8

record tensor =
  dtype :: dtype
  elems :: "64 word list"

fun itemsize :: "dtype \<Rightarrow> nat" where
  "itemsize Float32 = 4"
| "itemsize Float16 = 2"
| "itemsize Int32 = 4"
| "itemsize Float64 = 8"
| "itemsize BFloat16 = 2"
| "itemsize Int64 = 8"
| "itemsize Int16 = 2"
| "itemsize Int8 = 1"
| "itemsize UInt8 = 1"
| "itemsize Bool8 = 1"

definition numel :: "tensor \<Rightarrow> nat" where
  "numel t = length (elems t)"

text \<open>
  \<open>tensor.numpy().tobytes()\<close>: the elements one after the other, each in
  \<open>itemsize\<close> bytes, least significant byte first (the byte order of the machines
  torch runs on).
\<close>

definition le_bytes :: "nat \<Rightarrow> 64 word \<Rightarrow> 8 word list" where
  "le_bytes k w = map (\<lambda>i. ucast (drop_bit (8 * i) w)) [0..<k]"

definition tobytes :: "tensor \<Rightarrow> 8 word list" where
  "tobytes t = concat (map (le_bytes (itemsize (dtype t))) (elems t))"

text \<open>
  \<open>tensor.to(d)\<close> returns the tensor itself when it already has element type \<open>d\<close>,
  and otherwise a tensor of element type \<open>d\<close> with every element converted. The
  numeric conversion of one element is torch's and is floating-point rounding; it is the
  parameter \<open>cvt\<close> (from which type, to which type, the element), and every theorem
  below holds for any such function.
\<close>

type_synonym cast = "dtype \<Rightarrow> dtype \<Rightarrow> 64 word \<Rightarrow> 64 word"

definition to_dtype :: "cast \<Rightarrow> dtype \<Rightarrow> tensor \<Rightarrow> tensor" where
  "to_dtype cvt d t =
     (if dtype t = d then t
      else \<lparr>dtype = d, elems = map (cvt (dtype t) d) (elems t)\<rparr>)"

subsection \<open>The archive and the loop that fills it (lines 52--74)\<close>

text \<open>
  \<open>zipfile.ZipFile(output_file, 'w')\<close> is the list of members written so far, in
  order, together with whether \<open>close()\<close> has run.
\<close>

record zipfile =
  filelist :: "(string \<times> 8 word list) list"
  closed :: bool

definition writestr :: "string \<Rightarrow> 8 word list \<Rightarrow> zipfile \<Rightarrow> zipfile" where
  "writestr name bytes z = z\<lparr>filelist := filelist z @ [(name, bytes)]\<rparr>"

text \<open>Lines 64--72: the \<open>if\<close>/\<open>elif\<close> chain on \<open>tensor.dtype\<close>; \<open>None\<close> is the \<open>else\<close> branch.\<close>

fun dtype_prefix :: "dtype \<Rightarrow> string option" where
  "dtype_prefix Float32 = Some ''float32/''"
| "dtype_prefix Float16 = Some ''float16/''"
| "dtype_prefix Int32 = Some ''int32/''"
| "dtype_prefix _ = None"

text \<open>Lines 61--63: the tensor that is classified and written.\<close>

definition resolve :: "cast \<Rightarrow> bool \<Rightarrow> bool \<Rightarrow> tensor \<Rightarrow> tensor" where
  "resolve cvt downcast castable t =
     (if downcast \<and> castable then to_dtype cvt Float16 t else t)"

text \<open>
  The \<open>for\<close> loop of line 54. The state is the archive and the lines printed so far.
  The first component of the result is the value of a \<open>return\<close> statement that left
  the loop (\<open>Some False\<close> at lines 59 and 72), or \<open>None\<close> when the list is
  exhausted. The source reuses the variable \<open>prefix\<close> of line 21 for the type
  prefix; the list is complete by then, so the two are separate here
  (\<open>prefix0\<close> and \<open>prefix1\<close>).
\<close>

fun write_loop ::
  "cast \<Rightarrow> (string \<rightharpoonup> tensor) \<Rightarrow> bool \<Rightarrow> entry list \<Rightarrow> zipfile \<Rightarrow> string list
     \<Rightarrow> bool option \<times> zipfile \<times> string list" where
  "write_loop cvt params downcast [] outfile out = (None, outfile, out)"
| "write_loop cvt params downcast ((param, oparam, castable, optional) # rest) outfile out =
     (case params param of
        None \<Rightarrow>
          if optional then write_loop cvt params downcast rest outfile out
          else (Some False, outfile,
                out @ [''Parameters for '' @ param @ '' not found, bailing out''])
      | Some tensor0 \<Rightarrow>
          (let tensor = resolve cvt downcast castable tensor0 in
           case dtype_prefix (dtype tensor) of
             None \<Rightarrow> (Some False, outfile, out @ [''Unknown data type''])
           | Some prefix1 \<Rightarrow>
               write_loop cvt params downcast rest
                 (writestr (prefix1 @ oparam) (tobytes tensor) outfile) out))"

text \<open>
  The whole function. Its Python return value is \<open>False\<close> on the two error paths and
  \<open>None\<close> when the loop ends (there is no \<open>return\<close> after it). The archive is
  opened by a \<open>with\<close> statement, whose exit calls \<open>ZipFile.close()\<close> on every way
  out of the block, the two \<open>return False\<close> included.
\<close>

record run =
  retval :: "bool option"
  archive :: zipfile
  printed :: "string list"

definition reformat_quantized :: "cast \<Rightarrow> (string \<rightharpoonup> tensor) \<Rightarrow> int \<Rightarrow> bool \<Rightarrow> run" where
  "reformat_quantized cvt params num_layers downcast =
     (case write_loop cvt params downcast (paramlist num_layers)
             \<lparr>filelist = [], closed = False\<rparr> [] of
        (r, outfile, out) \<Rightarrow>
          \<lparr>retval = r, archive = outfile\<lparr>closed := True\<rparr>, printed = out\<rparr>)"

text \<open>
  A conversion to run the function on concrete stores: it keeps the bits of the element,
  of which \<open>tobytes\<close> takes the low ones. The general theorems hold for every
  conversion; this one only appears in the concrete runs.
\<close>

definition keep_bits :: cast where
  "keep_bits src dst w = w"

subsection \<open>Sample stores\<close>

text \<open>A checkpoint that holds the embedding table only.\<close>

definition store1 :: "string \<rightharpoonup> tensor" where
  "store1 = [''model.embed_tokens.weight'' \<mapsto> \<lparr>dtype = Float32, elems = [1, 2]\<rparr>]"

text \<open>A checkpoint whose embedding table is stored in 64-bit floats.\<close>

definition store_f64 :: "string \<rightharpoonup> tensor" where
  "store_f64 = [''model.embed_tokens.weight'' \<mapsto> \<lparr>dtype = Float64, elems = [1]\<rparr>]"

text \<open>A checkpoint whose embedding table is stored in 32-bit integers.\<close>

definition store_i32 :: "string \<rightharpoonup> tensor" where
  "store_i32 = [''model.embed_tokens.weight'' \<mapsto> \<lparr>dtype = Int32, elems = [1, 2]\<rparr>]"

text \<open>
  A checkpoint of one layer that holds a float32 tensor for every mandatory key of the
  name map and none for the optional ones.
\<close>

definition store_layer :: "string \<rightharpoonup> tensor" where
  "store_layer =
     map_of (map (\<lambda>e. (param_of e, \<lparr>dtype = Float32, elems = [1]\<rparr>))
               (filter (\<lambda>e. \<not> optional_of e) (paramlist 1)))"

subsection \<open>Vocabulary for the theorems\<close>

text \<open>
  The digits that follow \<open>dec\<close> in a destination name: the layer a per-layer name
  belongs to.
\<close>

definition layer_tag :: "string \<Rightarrow> string" where
  "layer_tag d = takeWhile is_digit (drop 3 d)"

text \<open>
  \<open>passes\<close>: the entry does not leave the loop, that is, its key is absent and it is
  optional (line 57), or its key is present and the tensor, after the cast of line 63, has
  one of the three element types of lines 64--69.
\<close>

definition passes :: "cast \<Rightarrow> (string \<rightharpoonup> tensor) \<Rightarrow> bool \<Rightarrow> entry \<Rightarrow> bool" where
  "passes cvt params downcast e =
     (case params (param_of e) of
        None \<Rightarrow> optional_of e
      | Some t \<Rightarrow> dtype_prefix (dtype (resolve cvt downcast (castable_of e) t)) \<noteq> None)"

text \<open>\<open>member\<close>: the archive member lines 73--74 write for an entry, if they are reached.\<close>

definition member ::
  "cast \<Rightarrow> (string \<rightharpoonup> tensor) \<Rightarrow> bool \<Rightarrow> entry \<Rightarrow> (string \<times> 8 word list) option" where
  "member cvt params downcast e =
     (case params (param_of e) of
        None \<Rightarrow> None
      | Some t \<Rightarrow>
          (case dtype_prefix (dtype (resolve cvt downcast (castable_of e) t)) of
             None \<Rightarrow> None
           | Some p \<Rightarrow> Some (p @ oparam_of e, tobytes (resolve cvt downcast (castable_of e) t))))"

definition members ::
  "cast \<Rightarrow> (string \<rightharpoonup> tensor) \<Rightarrow> bool \<Rightarrow> entry list \<Rightarrow> (string \<times> 8 word list) list" where
  "members cvt params downcast es = List.map_filter (member cvt params downcast) es"

text \<open>\<open>complaint\<close>: the line printed at line 58 or at line 71 for an entry that does not pass.\<close>

definition complaint :: "(string \<rightharpoonup> tensor) \<Rightarrow> entry \<Rightarrow> string" where
  "complaint params e =
     (case params (param_of e) of
        None \<Rightarrow> ''Parameters for '' @ param_of e @ '' not found, bailing out''
      | Some t \<Rightarrow> ''Unknown data type'')"

text \<open>
  \<open>attn_key layer\<close>: the entry's source key is one of the attention block of that
  layer: it starts with \<open>model.layers.\<close>, the layer number and \<open>.self_attn.\<close>
\<close>

definition attn_key :: "nat \<Rightarrow> entry \<Rightarrow> bool" where
  "attn_key layer e = prefix (''model.layers.'' @ str_nat layer @ ''.self_attn.'') (param_of e)"

text \<open>
  \<open>float32_store_member\<close> follows the words of the claim about a store of float32
  tensors converted with \<open>downcast = True\<close>, to be compared with \<open>member\<close>: an
  entry that may be cast goes under \<open>float16/\<close> with the converted tensor's bytes,
  any other under \<open>float32/\<close> with the bytes of the stored tensor.
\<close>

definition float32_store_member ::
  "cast \<Rightarrow> (string \<rightharpoonup> tensor) \<Rightarrow> entry \<Rightarrow> (string \<times> 8 word list) option" where
  "float32_store_member cvt params e =
     (case params (param_of e) of
        None \<Rightarrow> None
      | Some t \<Rightarrow>
          Some (if castable_of e
                then (''float16/'' @ oparam_of e, tobytes (to_dtype cvt Float16 t))
                else (''float32/'' @ oparam_of e, tobytes t)))"

section \<open>Properties of the name map\<close>

subsection \<open>Decimal numerals are injective and made of digits\<close>

lemma digit_char_is_digit: "d < 10 \<Longrightarrow> is_digit (digit_char d)"
  unfolding is_digit_def digit_char_def
  by (auto simp: less_Suc_eq numeral_eq_Suc nth_Cons')

lemma digit_char_inj: "a < 10 \<Longrightarrow> b < 10 \<Longrightarrow> digit_char a = digit_char b \<Longrightarrow> a = b"
  unfolding digit_char_def
  by (auto simp: less_Suc_eq numeral_eq_Suc nth_Cons')

lemma str_nat_digits: "\<forall>c \<in> set (str_nat n). is_digit c"
proof (induction n rule: str_nat.induct)
  case (1 n)
  show ?case
  proof (cases "n < 10")
    case True
    then show ?thesis by (simp add: str_nat.simps[of n] digit_char_is_digit)
  next
    case False
    with 1 show ?thesis by (simp add: str_nat.simps[of n] digit_char_is_digit)
  qed
qed

lemma str_nat_nonempty: "str_nat n \<noteq> []"
  by (simp add: str_nat.simps[of n])

lemma str_nat_inj: "str_nat n = str_nat m \<Longrightarrow> n = m"
proof (induction n arbitrary: m rule: str_nat.induct)
  case (1 n)
  show ?case
  proof (cases "n < 10")
    case n: True
    show ?thesis
    proof (cases "m < 10")
      case True
      with n 1(2) show ?thesis
        by (simp add: str_nat.simps[of n] str_nat.simps[of m] digit_char_inj)
    next
      case False
      with n 1(2) str_nat_nonempty[of "m div 10"] show ?thesis
        by (simp add: str_nat.simps[of n] str_nat.simps[of m])
    qed
  next
    case n: False
    show ?thesis
    proof (cases "m < 10")
      case True
      with n 1(2) str_nat_nonempty[of "n div 10"] show ?thesis
        by (simp add: str_nat.simps[of n] str_nat.simps[of m])
    next
      case False
      with n 1(2) have a: "str_nat (n div 10) = str_nat (m div 10)"
        and b: "digit_char (n mod 10) = digit_char (m mod 10)"
        by (simp_all add: str_nat.simps[of n] str_nat.simps[of m])
      from 1(1)[OF n a] have "n div 10 = m div 10" .
      moreover from b have "n mod 10 = m mod 10" by (simp add: digit_char_inj)
      ultimately show ?thesis by (metis div_mult_mod_eq)
    qed
  qed
qed

lemma str_nat_0: "str_nat 0 = ''0''"
  by (simp add: str_nat.simps [of 0] digit_char_def)

lemma paramlist_0:
  "paramlist 0 = [(''model.embed_tokens.weight'', ''embedding.embed'', True, False),
                  (''model.norm.weight'', ''modelnorm.weights'', True, False),
                  (''lm_head.weight'', ''tokenscoring.embed'', True, False)]"
  by (simp add: paramlist_def)

lemma paramlist_1:
  "paramlist 1 =
    [(''model.embed_tokens.weight'', ''embedding.embed'', True, False),
     (''model.layers.0.self_attn.q_proj.qweight'', ''dec0att.query.weights'', False, False),
     (''model.layers.0.self_attn.q_proj.scales'', ''dec0att.query.scales'', False, False),
     (''model.layers.0.self_attn.q_proj.qzeros'', ''dec0att.query.zeros'', False, False),
     (''model.layers.0.self_attn.k_proj.qweight'', ''dec0att.key.weights'', False, False),
     (''model.layers.0.self_attn.k_proj.scales'', ''dec0att.key.scales'', False, False),
     (''model.layers.0.self_attn.k_proj.qzeros'', ''dec0att.key.zeros'', False, False),
     (''model.layers.0.self_attn.v_proj.qweight'', ''dec0att.value.weights'', False, False),
     (''model.layers.0.self_attn.v_proj.scales'', ''dec0att.value.scales'', False, False),
     (''model.layers.0.self_attn.v_proj.qzeros'', ''dec0att.value.zeros'', False, False),
     (''model.layers.0.self_attn.o_proj.qweight'', ''dec0att.out.weights'', False, False),
     (''model.layers.0.self_attn.o_proj.scales'', ''dec0att.out.scales'', False, False),
     (''model.layers.0.self_attn.o_proj.qzeros'', ''dec0att.out.zeros'', False, False),
     (''model.layers.0.mlp.gate_proj.qweight'', ''dec0gate.weights'', False, False),
     (''model.layers.0.mlp.gate_proj.bias'', ''dec0gate.bias'', False, True),
     (''model.layers.0.mlp.gate_proj.scales'', ''dec0gate.scales'', False, False),
     (''model.layers.0.mlp.gate_proj.qzeros'', ''dec0gate.zeros'', False, False),
     (''model.layers.0.mlp.up_proj.qweight'', ''dec0up.weights'', False, False),
     (''model.layers.0.mlp.up_proj.bias'', ''dec0up.bias'', False, True),
     (''model.layers.0.mlp.up_proj.scales'', ''dec0up.scales'', False, False),
     (''model.layers.0.mlp.up_proj.qzeros'', ''dec0up.zeros'', False, False),
     (''model.layers.0.mlp.down_proj.qweight'', ''dec0down.weights'', False, True),
     (''model.layers.0.mlp.down_proj.bias'', ''dec0down.bias'', False, True),
     (''model.layers.0.mlp.down_proj.scales'', ''dec0down.scales'', False, False),
     (''model.layers.0.mlp.down_proj.qzeros'', ''dec0down.zeros'', False, False),
     (''model.layers.0.input_layernorm.weight'', ''dec0ln0.weights'', True, False),
     (''model.layers.0.post_attention_layernorm.weight'', ''dec0ln1.weights'', True, False),
     (''model.norm.weight'', ''modelnorm.weights'', True, False),
     (''lm_head.weight'', ''tokenscoring.embed'', True, False)]"
  by (simp add: paramlist_def layer_entries_def attn_entries_def mlp_entries_def ln_entries_def
        prefix0_def str_nat_0)

subsection \<open>Every run of lines 20--51 ends with the same list\<close>





subsection \<open>Destination names of different layers differ\<close>

lemma layer_tag_dec:
  "s \<noteq> [] \<Longrightarrow> \<not> is_digit (hd s) \<Longrightarrow> layer_tag (''dec'' @ str_nat j @ s) = str_nat j"
  using str_nat_digits[of j]
  by (cases s) (simp_all add: layer_tag_def takeWhile_append2)

lemma oparams_layer:
  "map oparam_of (layer_entries j) = map (\<lambda>s. ''dec'' @ str_nat j @ s)
     [''att.query.weights'', ''att.query.scales'', ''att.query.zeros'',
      ''att.key.weights'', ''att.key.scales'', ''att.key.zeros'',
      ''att.value.weights'', ''att.value.scales'', ''att.value.zeros'',
      ''att.out.weights'', ''att.out.scales'', ''att.out.zeros'',
      ''gate.weights'', ''gate.bias'', ''gate.scales'', ''gate.zeros'',
      ''up.weights'', ''up.bias'', ''up.scales'', ''up.zeros'',
      ''down.weights'', ''down.bias'', ''down.scales'', ''down.zeros'',
      ''ln0.weights'', ''ln1.weights'']"
  by (simp add: layer_entries_def attn_entries_def mlp_entries_def ln_entries_def oparam_of_def)

lemma layer_tag_layer:
  assumes "d \<in> set (map oparam_of (layer_entries j))"
  shows "layer_tag d = str_nat j"
proof -
  from assms obtain s where d: "d = ''dec'' @ str_nat j @ s"
    and s: "s \<noteq> [] \<and> \<not> is_digit (hd s)"
    unfolding oparams_layer by (auto simp: is_digit_def)
  show ?thesis unfolding d using s by (intro layer_tag_dec) simp_all
qed

lemma distinct_layer: "distinct (map oparam_of (layer_entries j))"
  unfolding oparams_layer
  by (simp add: distinct_map inj_on_def)

lemma length_layer: "length (layer_entries j) = 26"
  by (simp add: layer_entries_def attn_entries_def mlp_entries_def ln_entries_def)


lemma oparams_paramlist:
  "map oparam_of (paramlist n) =
     ''embedding.embed'' # concat (map (\<lambda>j. map oparam_of (layer_entries j)) [0..<nat n])
       @ [''modelnorm.weights'', ''tokenscoring.embed'']"
  by (simp add: paramlist_def oparam_of_def map_concat comp_def)

lemma layer_tag_inj: "layer_tag d = str_nat i \<Longrightarrow> layer_tag d = str_nat j \<Longrightarrow> i = j"
  using str_nat_inj by simp

lemma distinct_layers: "distinct (concat (map (\<lambda>j. map oparam_of (layer_entries j)) [0..<k]))"
proof (induction k)
  case 0
  show ?case by simp
next
  case (Suc k)
  have "set (concat (map (\<lambda>j. map oparam_of (layer_entries j)) [0..<k]))
          \<inter> set (map oparam_of (layer_entries k)) = {}"
  proof -
    have "d \<notin> set (map oparam_of (layer_entries k))"
      if "d \<in> set (concat (map (\<lambda>j. map oparam_of (layer_entries j)) [0..<k]))" for d
    proof
      assume dk: "d \<in> set (map oparam_of (layer_entries k))"
      from that obtain j where j: "j < k" and dj: "d \<in> set (map oparam_of (layer_entries j))"
        unfolding set_concat by fastforce
      from layer_tag_layer[OF dj] layer_tag_layer[OF dk] have "j = k"
        by (rule layer_tag_inj)
      with j show False by simp
    qed
    then show ?thesis by blast
  qed
  with Suc distinct_layer[of k] show ?case by simp
qed

lemma dec_layers:
  "d \<in> set (concat (map (\<lambda>j. map oparam_of (layer_entries j)) [0..<k])) \<Longrightarrow> take 3 d = ''dec''"
  unfolding oparams_layer by auto

lemma distinct_oparams: "distinct (map oparam_of (paramlist n))"
proof -
  let ?L = "concat (map (\<lambda>j. map oparam_of (layer_entries j)) [0..<nat n])"
  have a: "''embedding.embed'' \<notin> set ?L" using dec_layers[of "''embedding.embed''" "nat n"] by auto
  have b: "''modelnorm.weights'' \<notin> set ?L" using dec_layers[of "''modelnorm.weights''" "nat n"] by auto
  have c: "''tokenscoring.embed'' \<notin> set ?L" using dec_layers[of "''tokenscoring.embed''" "nat n"] by auto
  show ?thesis
    unfolding oparams_paramlist using a b c distinct_layers[of "nat n"] by simp
qed

lemma length_paramlist: "length (paramlist n) = 3 + 26 * nat n"
  by (simp add: paramlist_def length_concat comp_def length_layer sum_list_triv)

subsection \<open>The attention block of a layer\<close>

lemma takeWhile_digits:
  "s \<noteq> [] \<Longrightarrow> \<not> is_digit (hd s) \<Longrightarrow> takeWhile is_digit (str_nat i @ s @ r) = str_nat i"
  using str_nat_digits[of i]
  by (cases s) (simp_all add: takeWhile_append2)

lemma prefix_layer_key:
  assumes "s \<noteq> []" "\<not> is_digit (hd s)" "t \<noteq> []" "\<not> is_digit (hd t)"
  shows "prefix (str_nat i @ s) (str_nat j @ t) \<longleftrightarrow> i = j \<and> prefix s t"
proof
  assume "prefix (str_nat i @ s) (str_nat j @ t)"
  then obtain r where r: "str_nat j @ t = str_nat i @ s @ r"
    by (auto simp: prefix_def)
  have "takeWhile is_digit (str_nat j @ t @ []) = str_nat j"
    using assms(3,4) by (rule takeWhile_digits)
  moreover have "takeWhile is_digit (str_nat i @ s @ r) = str_nat i"
    using assms(1,2) by (rule takeWhile_digits)
  ultimately have "str_nat i = str_nat j" using r by simp
  then have ij: "i = j" by (rule str_nat_inj)
  with r show "i = j \<and> prefix s t" by (simp add: prefix_def)
next
  assume "i = j \<and> prefix s t"
  then show "prefix (str_nat i @ s) (str_nat j @ t)" by simp
qed

lemma attn_filter_layer:
  "filter (attn_key layer) (layer_entries j) = (if j = layer then attn_entries layer else [])"
  by (simp add: attn_key_def layer_entries_def attn_entries_def mlp_entries_def ln_entries_def
        param_of_def prefix0_def prefix_layer_key is_digit_def)

lemma attn_filter_layers:
  "filter (attn_key layer) (concat (map layer_entries [0..<k])) =
     (if layer < k then attn_entries layer else [])"
proof (induction k)
  case 0
  show ?case by simp
next
  case (Suc k)
  then show ?case by (auto simp: attn_filter_layer)
qed

lemma attn_filter_paramlist:
  "filter (attn_key layer) (paramlist n) = (if layer < nat n then attn_entries layer else [])"
  unfolding paramlist_def filter_append attn_filter_layers
  by (simp add: attn_key_def param_of_def)

section \<open>Properties of the loop\<close>

lemma passes_Cons:
  "passes cvt params dc e \<Longrightarrow>
   write_loop cvt params dc (e # rest) z out =
   write_loop cvt params dc rest (z\<lparr>filelist := filelist z @ members cvt params dc [e]\<rparr>) out"
  by (cases e)
     (auto simp: passes_def members_def member_def List.map_filter_simps writestr_def
        param_of_def oparam_of_def castable_of_def optional_of_def Let_def
        split: option.splits)

lemma fails_Cons:
  "\<not> passes cvt params dc e \<Longrightarrow>
   write_loop cvt params dc (e # rest) z out = (Some False, z, out @ [complaint params e])"
  by (cases e)
     (auto simp: passes_def complaint_def
        param_of_def oparam_of_def castable_of_def optional_of_def Let_def
        split: option.splits)

lemma members_append: "members cvt params dc (xs @ ys) = members cvt params dc xs @ members cvt params dc ys"
  by (simp add: members_def List.map_filter_def)

lemma members_Nil: "members cvt params dc [] = []"
  by (simp add: members_def List.map_filter_simps)

lemma write_loop_pre:
  "\<forall>e\<in>set pre. passes cvt params dc e \<Longrightarrow>
   write_loop cvt params dc (pre @ rest) z out =
   write_loop cvt params dc rest (z\<lparr>filelist := filelist z @ members cvt params dc pre\<rparr>) out"
proof (induction pre arbitrary: z)
  case Nil
  show ?case by (simp add: members_Nil)
next
  case (Cons e pre)
  from Cons.prems have e: "passes cvt params dc e" and pre: "\<forall>x\<in>set pre. passes cvt params dc x"
    by simp_all
  have "members cvt params dc (e # pre) = members cvt params dc [e] @ members cvt params dc pre"
    using members_append[of cvt params dc "[e]" pre] by simp
  then show ?case
    using passes_Cons[OF e] Cons.IH[OF pre] by simp
qed

lemma write_loop_all:
  "\<forall>e\<in>set es. passes cvt params dc e \<Longrightarrow>
   write_loop cvt params dc es z out =
   (None, z\<lparr>filelist := filelist z @ members cvt params dc es\<rparr>, out)"
  using write_loop_pre[of es cvt params dc "[]" z out] by simp

lemma write_loop_stop:
  "\<forall>x\<in>set pre. passes cvt params dc x \<Longrightarrow> \<not> passes cvt params dc e \<Longrightarrow>
   write_loop cvt params dc (pre @ e # post) z out =
   (Some False, z\<lparr>filelist := filelist z @ members cvt params dc pre\<rparr>, out @ [complaint params e])"
  by (simp add: write_loop_pre fails_Cons)

lemma run_all:
  "\<forall>e\<in>set (paramlist n). passes cvt params dc e \<Longrightarrow>
   reformat_quantized cvt params n dc =
   \<lparr>retval = None, archive = \<lparr>filelist = members cvt params dc (paramlist n), closed = True\<rparr>,
    printed = []\<rparr>"
  by (simp add: reformat_quantized_def write_loop_all)

lemma run_stop:
  "paramlist n = pre @ e # post \<Longrightarrow> \<forall>x\<in>set pre. passes cvt params dc x \<Longrightarrow>
   \<not> passes cvt params dc e \<Longrightarrow>
   reformat_quantized cvt params n dc =
   \<lparr>retval = Some False, archive = \<lparr>filelist = members cvt params dc pre, closed = True\<rparr>,
    printed = [complaint params e]\<rparr>"
  by (simp add: reformat_quantized_def write_loop_stop)

lemma split_first_fail:
  "\<exists>e\<in>set es. \<not> P e \<Longrightarrow> \<exists>pre e post. es = pre @ e # post \<and> (\<forall>x\<in>set pre. P x) \<and> \<not> P e"
  using split_list_first_prop[of es "\<lambda>e. \<not> P e"] by auto

lemma write_loop_takeWhile:
  "fst (snd (write_loop cvt params dc es z out)) =
     z\<lparr>filelist := filelist z @ members cvt params dc (takeWhile (passes cvt params dc) es)\<rparr>"
proof (induction es arbitrary: z)
  case Nil
  show ?case by (simp add: members_Nil)
next
  case (Cons e es)
  let ?tw = "takeWhile (passes cvt params dc) es"
  show ?case
  proof (cases "passes cvt params dc e")
    case True
    have m: "members cvt params dc [e] @ members cvt params dc ?tw = members cvt params dc (e # ?tw)"
      using members_append[of cvt params dc "[e]" ?tw] by simp
    have "fst (snd (write_loop cvt params dc (e # es) z out)) =
          fst (snd (write_loop cvt params dc es
                      (z\<lparr>filelist := filelist z @ members cvt params dc [e]\<rparr>) out))"
      using True by (simp only: passes_Cons)
    also have "\<dots> = z\<lparr>filelist := filelist z @ members cvt params dc [e] @ members cvt params dc ?tw\<rparr>"
      by (simp add: Cons.IH)
    also have "\<dots> = z\<lparr>filelist := filelist z @ members cvt params dc (e # ?tw)\<rparr>"
      by (simp only: m)
    finally show ?thesis using True by simp
  next
    case False
    then show ?thesis by (simp add: fails_Cons members_Nil)
  qed
qed

lemma run_filelist:
  "filelist (archive (reformat_quantized cvt params n dc)) =
     members cvt params dc (takeWhile (passes cvt params dc) (paramlist n))"
proof -
  obtain r z out where w: "write_loop cvt params dc (paramlist n) \<lparr>filelist = [], closed = False\<rparr> [] = (r, z, out)"
    by (cases "write_loop cvt params dc (paramlist n) \<lparr>filelist = [], closed = False\<rparr> []") auto
  from write_loop_takeWhile[of cvt params dc "paramlist n" "\<lparr>filelist = [], closed = False\<rparr>" "[]"] w
  have "z = \<lparr>filelist = members cvt params dc (takeWhile (passes cvt params dc) (paramlist n)), closed = False\<rparr>"
    by simp
  with w show ?thesis by (simp add: reformat_quantized_def)
qed

lemma run_closed: "closed (archive (reformat_quantized cvt params n dc))"
  by (simp add: reformat_quantized_def split: prod.splits)

lemma run_retval_fail:
  assumes "e \<in> set (paramlist n)" "\<not> passes cvt params dc e"
  shows "retval (reformat_quantized cvt params n dc) = Some False"
proof -
  from assms have "\<exists>x\<in>set (paramlist n). \<not> passes cvt params dc x" by blast
  from split_first_fail[OF this] obtain pre x post where
    "paramlist n = pre @ x # post" "\<forall>y\<in>set pre. passes cvt params dc y" "\<not> passes cvt params dc x"
    by blast
  from run_stop[OF this] show ?thesis by simp
qed

lemma length_tobytes: "length (tobytes t) = itemsize (dtype t) * numel t"
  by (simp add: tobytes_def le_bytes_def numel_def length_concat comp_def sum_list_triv)

lemma run_filelist_prefix:
  assumes "paramlist n = pre @ post" "\<forall>x\<in>set pre. passes cvt params dc x"
  shows "prefix (members cvt params dc pre) (filelist (archive (reformat_quantized cvt params n dc)))"
proof -
  have "takeWhile (passes cvt params dc) (pre @ post) = pre @ takeWhile (passes cvt params dc) post"
    using assms(2) by (simp add: takeWhile_append2)
  then show ?thesis
    unfolding run_filelist assms(1) by (simp add: members_append)
qed

lemma member_name:
  assumes "(name, b) \<in> set (members cvt params dc es)"
  shows "\<exists>x\<in>set es. \<exists>d p. params (param_of x) \<noteq> None \<and> dtype_prefix d = Some p
            \<and> name = p @ oparam_of x"
proof -
  from assms obtain x where x: "x \<in> set es" and m: "member cvt params dc x = Some (name, b)"
    by (auto simp: members_def List.map_filter_def)
  from m show ?thesis using x
    by (auto simp: member_def split: option.splits)
qed

lemma dtype_prefix_inj:
  "dtype_prefix d = Some p \<Longrightarrow> dtype_prefix d' = Some p' \<Longrightarrow> p @ a = p' @ b \<Longrightarrow> a = b"
  by (cases d; cases d') auto

lemma run_filelist_subset:
  "set (filelist (archive (reformat_quantized cvt params n dc)))
     \<subseteq> set (members cvt params dc (paramlist n))"
proof -
  have "set (takeWhile (passes cvt params dc) (paramlist n)) \<subseteq> set (paramlist n)"
    by (auto dest: set_takeWhileD)
  then show ?thesis
    unfolding run_filelist by (auto simp: members_def List.map_filter_def)
qed

lemma members_cong:
  "(\<And>e. e \<in> set es \<Longrightarrow> member cvt params dc e = f e) \<Longrightarrow>
   members cvt params dc es = List.map_filter f es"
  by (induction es) (auto simp: members_def List.map_filter_simps split: option.splits)

section \<open>The claims about the name map\<close>

text \<open>
  C2, as stated: for every \<open>layer_count \<ge> 0\<close> the name map has exactly
  \<open>2 + 26 * layer_count\<close> entries. The list of line 20 starts with one tuple, every
  layer appends 26 and lines 50--51 append two more, so already for no layers the list has
  three entries, not two.
\<close>

theorem paramlist_count_counterexample:
  "int (length (paramlist 0)) \<noteq> 2 + 26 * 0"
  by (simp add: paramlist_def)

text \<open>
  C2, amended: for every \<open>layer_count \<ge> 0\<close> the name map has exactly
  \<open>3 + 26 * layer_count\<close> entries (one embedding entry, 26 per layer, the final norm
  and the output head), and its destination names are pairwise distinct.
\<close>

theorem paramlist_count_distinct:
  "0 \<le> n \<Longrightarrow> int (length (paramlist n)) = 3 + 26 * n \<and> distinct (map oparam_of (paramlist n))"
  by (simp add: length_paramlist distinct_oparams)

theorem paramlist_count_distinct_witness:
  "(0::int) \<le> 2 \<and> int (length (paramlist 2)) = 3 + 26 * 2 \<and> distinct (map oparam_of (paramlist 2))"
  using paramlist_count_distinct [of 2] by simp



text \<open>
  C3: every MLP weight, scale and zero-point entry is mandatory and only the three bias
  entries are optional. Line 44 appends the \<open>down_proj.qweight\<close> tuple with
  \<open>optional = True\<close>, unlike the \<open>gate_proj\<close> and \<open>up_proj\<close> weights of lines 36
  and 40: in the name map for one layer the entry for \<open>dec0down.weights\<close> is optional,
  while the two sibling weight entries are mandatory, and the optional entries are four,
  not three.
\<close>

theorem down_weights_optional:
  "(''model.layers.0.mlp.down_proj.qweight'', ''dec0down.weights'', False, True) \<in> set (paramlist 1)
   \<and> (''model.layers.0.mlp.gate_proj.qweight'', ''dec0gate.weights'', False, False) \<in> set (paramlist 1)
   \<and> (''model.layers.0.mlp.up_proj.qweight'', ''dec0up.weights'', False, False) \<in> set (paramlist 1)
   \<and> map oparam_of (filter optional_of (paramlist 1)) =
        [''dec0gate.bias'', ''dec0up.bias'', ''dec0down.weights'', ''dec0down.bias'']"
  by (simp add: paramlist_1 optional_of_def oparam_of_def)

text \<open>
  C5, as stated: the attention part of a layer contributes exactly 9 entries. Lines 24--35
  append three tuples (\<open>qweight\<close>, \<open>scales\<close>, \<open>qzeros\<close>) for each of the four
  projections \<open>q\<close>, \<open>k\<close>, \<open>v\<close> and \<open>o\<close>: the name map for one layer has
  twelve entries whose key is under \<open>model.layers.0.self_attn.\<close>, not nine.
\<close>

theorem attn_block_counterexample:
  "length (filter (attn_key 0) (paramlist 1)) \<noteq> 9"
  by (simp add: attn_filter_paramlist attn_entries_def)

text \<open>
  C5, amended: for every layer of the name map, the attention part (query, key, value and
  output projection) contributes exactly 12 entries, a weight, a scale and a zero-point
  entry for each of the four projections, all mandatory and none of them to be cast.
\<close>

theorem attn_block_twelve:
  "layer < nat n \<Longrightarrow>
     length (filter (attn_key layer) (paramlist n)) = 12
   \<and> list_all (\<lambda>e. \<not> castable_of e \<and> \<not> optional_of e) (filter (attn_key layer) (paramlist n))
   \<and> map param_of (filter (attn_key layer) (paramlist n)) =
       concat (map (\<lambda>proj. map (\<lambda>sub. ''model.layers.'' @ str_nat layer @ ''.self_attn.'' @ proj @ ''_proj.'' @ sub)
                              [''qweight'', ''scales'', ''qzeros''])
                   [''q'', ''k'', ''v'', ''o''])"
  by (simp add: attn_filter_paramlist attn_entries_def castable_of_def optional_of_def
        param_of_def prefix0_def)

theorem attn_block_twelve_witness:
  "(0::nat) < nat 1
   \<and> length (filter (attn_key 0) (paramlist 1)) = 12
   \<and> list_all (\<lambda>e. \<not> castable_of e \<and> \<not> optional_of e) (filter (attn_key 0) (paramlist 1))
   \<and> map param_of (filter (attn_key 0) (paramlist 1)) =
       [''model.layers.0.self_attn.q_proj.qweight'', ''model.layers.0.self_attn.q_proj.scales'',
        ''model.layers.0.self_attn.q_proj.qzeros'', ''model.layers.0.self_attn.k_proj.qweight'',
        ''model.layers.0.self_attn.k_proj.scales'', ''model.layers.0.self_attn.k_proj.qzeros'',
        ''model.layers.0.self_attn.v_proj.qweight'', ''model.layers.0.self_attn.v_proj.scales'',
        ''model.layers.0.self_attn.v_proj.qzeros'', ''model.layers.0.self_attn.o_proj.qweight'',
        ''model.layers.0.self_attn.o_proj.scales'', ''model.layers.0.self_attn.o_proj.qzeros'']"
proof -
  have h: "(0::nat) < nat 1" by simp
  have "concat (map (\<lambda>proj. map (\<lambda>sub. ''model.layers.'' @ str_nat 0 @ ''.self_attn.'' @ proj @ ''_proj.'' @ sub)
                              [''qweight'', ''scales'', ''qzeros''])
                   [''q'', ''k'', ''v'', ''o'']) =
       [''model.layers.0.self_attn.q_proj.qweight'', ''model.layers.0.self_attn.q_proj.scales'',
        ''model.layers.0.self_attn.q_proj.qzeros'', ''model.layers.0.self_attn.k_proj.qweight'',
        ''model.layers.0.self_attn.k_proj.scales'', ''model.layers.0.self_attn.k_proj.qzeros'',
        ''model.layers.0.self_attn.v_proj.qweight'', ''model.layers.0.self_attn.v_proj.scales'',
        ''model.layers.0.self_attn.v_proj.qzeros'', ''model.layers.0.self_attn.o_proj.qweight'',
        ''model.layers.0.self_attn.o_proj.scales'', ''model.layers.0.self_attn.o_proj.qzeros'']"
    by (simp add: str_nat_0)
  with attn_block_twelve [OF h] h show ?thesis by (simp only:) 
qed

section \<open>The claims about the archive writer\<close>

text \<open>
  C1, as stated: when a mandatory key is absent the archive receives no \<open>finalize()\<close>
  and is left unfinalized. The \<open>return False\<close> of line 59 is inside the \<open>with\<close>
  block of line 53, so the archive is closed on the way out: for a checkpoint that has the
  embedding table but not \<open>model.norm.weight\<close>, the function returns \<open>False\<close> and
  leaves a closed archive with the one member written before the missing key.
\<close>

theorem missing_mandatory_counterexample:
  "retval (reformat_quantized keep_bits store1 0 False) = Some False
   \<and> closed (archive (reformat_quantized keep_bits store1 0 False))
   \<and> map fst (filelist (archive (reformat_quantized keep_bits store1 0 False)))
        = [''float32/embedding.embed'']"
  by (simp add: reformat_quantized_def paramlist_0 store1_def resolve_def writestr_def)

text \<open>
  C1, amended: if a mandatory entry's source key is absent from the store, the function
  returns \<open>False\<close> and the \<open>with\<close> block closes the archive; when every entry
  before it was written or skipped, the line printed names the missing key, no entry from
  that one on is processed, and the closed archive holds exactly the members written before
  it.
\<close>

theorem missing_mandatory_aborts:
  assumes "paramlist n = pre @ e # post"
    and "params (param_of e) = None" and "\<not> optional_of e"
  shows "retval (reformat_quantized cvt params n downcast) = Some False
     \<and> closed (archive (reformat_quantized cvt params n downcast))
     \<and> ((\<forall>x\<in>set pre. passes cvt params downcast x) \<longrightarrow>
          reformat_quantized cvt params n downcast =
            \<lparr>retval = Some False,
             archive = \<lparr>filelist = members cvt params downcast pre, closed = True\<rparr>,
             printed = [''Parameters for '' @ param_of e @ '' not found, bailing out'']\<rparr>)"
proof -
  from assms(2,3) have f: "\<not> passes cvt params downcast e" by (simp add: passes_def)
  from assms(1) have "e \<in> set (paramlist n)" by simp
  from run_retval_fail[OF this f]
  have a: "retval (reformat_quantized cvt params n downcast) = Some False" .
  have c: "complaint params e = ''Parameters for '' @ param_of e @ '' not found, bailing out''"
    using assms(2) by (simp add: complaint_def)
  show ?thesis using a run_closed run_stop[OF assms(1) _ f] c by auto
qed

theorem missing_mandatory_aborts_witness:
  "reformat_quantized keep_bits store1 0 False =
     \<lparr>retval = Some False,
      archive = \<lparr>filelist = [(''float32/embedding.embed'', [1, 0, 0, 0, 2, 0, 0, 0])], closed = True\<rparr>,
      printed = [''Parameters for model.norm.weight not found, bailing out'']\<rparr>"
proof -
  let ?pre = "[(''model.embed_tokens.weight'', ''embedding.embed'', True, False)]"
  let ?e = "(''model.norm.weight'', ''modelnorm.weights'', True, False)"
  let ?post = "[(''lm_head.weight'', ''tokenscoring.embed'', True, False)]"
  have 1: "paramlist 0 = ?pre @ ?e # ?post" by (simp add: paramlist_0)
  have 2: "store1 (param_of ?e) = None" by (simp add: store1_def param_of_def)
  have 3: "\<not> optional_of ?e" by (simp add: optional_of_def)
  have 4: "\<forall>x\<in>set ?pre. passes keep_bits store1 False x"
    by (simp add: passes_def store1_def param_of_def castable_of_def resolve_def)
  have 5: "members keep_bits store1 False ?pre = [(''float32/embedding.embed'', [1, 0, 0, 0, 2, 0, 0, 0])]"
    by (simp add: members_def member_def List.map_filter_simps store1_def param_of_def
          castable_of_def oparam_of_def resolve_def tobytes_def le_bytes_def upt_rec drop_bit_eq_div)
  from missing_mandatory_aborts[where params = store1 and cvt = keep_bits and downcast = False, OF 1 2 3] 4 5 show ?thesis
    by (simp add: param_of_def)
qed

text \<open>
  C4, as stated: for a tensor of an element type other than float32, float16 and int32 the
  error names the element type and the destination path, and the archive is discarded.
  Line 71 prints the fixed text \<open>Unknown data type\<close>, which contains neither, and the
  \<open>with\<close> block closes the archive: so it is for a checkpoint whose embedding table
  is stored in 64-bit floats.
\<close>

theorem unknown_dtype_counterexample:
  "printed (reformat_quantized keep_bits store_f64 0 False) = [''Unknown data type'']
   \<and> \<not> sublist ''embedding.embed'' ''Unknown data type''
   \<and> \<not> sublist ''float64'' ''Unknown data type''
   \<and> closed (archive (reformat_quantized keep_bits store_f64 0 False))"
  by (simp add: reformat_quantized_def paramlist_0 store_f64_def resolve_def sublist_Cons_right)

text \<open>
  C4, amended: if the tensor of an entry, after the cast of line 63 when it applies, has an
  element type other than float32, float16 and int32, the function returns \<open>False\<close>
  and the \<open>with\<close> block closes the archive; when every entry before it was written
  or skipped, the only line printed is \<open>Unknown data type\<close>, no entry from that one on
  is written, and the closed archive holds exactly the members written before it.
\<close>

theorem unknown_dtype_aborts:
  assumes "paramlist n = pre @ e # post"
    and "params (param_of e) = Some t"
    and "dtype_prefix (dtype (resolve cvt downcast (castable_of e) t)) = None"
  shows "retval (reformat_quantized cvt params n downcast) = Some False
     \<and> closed (archive (reformat_quantized cvt params n downcast))
     \<and> ((\<forall>x\<in>set pre. passes cvt params downcast x) \<longrightarrow>
          reformat_quantized cvt params n downcast =
            \<lparr>retval = Some False,
             archive = \<lparr>filelist = members cvt params downcast pre, closed = True\<rparr>,
             printed = [''Unknown data type'']\<rparr>)"
proof -
  from assms(2,3) have f: "\<not> passes cvt params downcast e" by (simp add: passes_def)
  from assms(1) have "e \<in> set (paramlist n)" by simp
  from run_retval_fail[OF this f]
  have a: "retval (reformat_quantized cvt params n downcast) = Some False" .
  have c: "complaint params e = ''Unknown data type''"
    using assms(2) by (simp add: complaint_def)
  show ?thesis using a run_closed run_stop[OF assms(1) _ f] c by auto
qed

theorem unknown_dtype_aborts_witness:
  "reformat_quantized keep_bits store_f64 0 False =
     \<lparr>retval = Some False, archive = \<lparr>filelist = [], closed = True\<rparr>,
      printed = [''Unknown data type'']\<rparr>"
proof -
  let ?e = "(''model.embed_tokens.weight'', ''embedding.embed'', True, False)"
  let ?post = "[(''model.norm.weight'', ''modelnorm.weights'', True, False),
                (''lm_head.weight'', ''tokenscoring.embed'', True, False)]"
  let ?t = "\<lparr>dtype = Float64, elems = [1]\<rparr>"
  have 1: "paramlist 0 = [] @ ?e # ?post" by (simp add: paramlist_0)
  have 2: "store_f64 (param_of ?e) = Some ?t" by (simp add: store_f64_def param_of_def)
  have 3: "dtype_prefix (dtype (resolve keep_bits False (castable_of ?e) ?t)) = None"
    by (simp add: resolve_def)
  from unknown_dtype_aborts[where params = store_f64 and cvt = keep_bits and downcast = False
      and pre = "[]", OF 1 2 3]
  show ?thesis by (simp add: members_Nil)
qed

text \<open>
  C8: for a store with exactly the float32 tensors \<open>model.embed_tokens.weight\<close>,
  \<open>model.norm.weight\<close> and \<open>lm_head.weight\<close>, of any sizes, no layers and no
  cast, the function ends without a \<open>return False\<close>, prints nothing, and the closed
  archive has exactly the three members \<open>float32/embedding.embed\<close>,
  \<open>float32/modelnorm.weights\<close> and \<open>float32/tokenscoring.embed\<close>, each with four
  bytes per element of its tensor.
\<close>

theorem three_tensor_store:
  "reformat_quantized cvt
     [''model.embed_tokens.weight'' \<mapsto> \<lparr>dtype = Float32, elems = a\<rparr>,
      ''model.norm.weight'' \<mapsto> \<lparr>dtype = Float32, elems = b\<rparr>,
      ''lm_head.weight'' \<mapsto> \<lparr>dtype = Float32, elems = c\<rparr>] 0 False =
     \<lparr>retval = None,
      archive = \<lparr>filelist =
         [(''float32/embedding.embed'', tobytes \<lparr>dtype = Float32, elems = a\<rparr>),
          (''float32/modelnorm.weights'', tobytes \<lparr>dtype = Float32, elems = b\<rparr>),
          (''float32/tokenscoring.embed'', tobytes \<lparr>dtype = Float32, elems = c\<rparr>)],
         closed = True\<rparr>,
      printed = []\<rparr>
   \<and> length (tobytes \<lparr>dtype = Float32, elems = a\<rparr>) = 4 * numel \<lparr>dtype = Float32, elems = a\<rparr>
   \<and> length (tobytes \<lparr>dtype = Float32, elems = b\<rparr>) = 4 * numel \<lparr>dtype = Float32, elems = b\<rparr>
   \<and> length (tobytes \<lparr>dtype = Float32, elems = c\<rparr>) = 4 * numel \<lparr>dtype = Float32, elems = c\<rparr>"
  by (simp add: reformat_quantized_def paramlist_0 resolve_def writestr_def
        tobytes_def le_bytes_def numel_def length_concat comp_def sum_list_triv)

text \<open>
  C10: with \<open>downcast = True\<close>, an entry that may be cast is converted whatever the
  element type of its stored tensor: once the loop reaches it, the entry does not stop the
  loop and its member is written under \<open>float16/\<close> with two bytes per element; for
  a stored int32 tensor the member holds the converted elements, and is neither written
  under \<open>int32/\<close> nor rejected.
\<close>

theorem downcast_any_dtype:
  assumes "paramlist n = pre @ e # post"
    and "\<forall>x\<in>set pre. passes cvt params True x"
    and "castable_of e" and "params (param_of e) = Some t"
  shows "passes cvt params True e
     \<and> prefix (members cvt params True pre
               @ [(''float16/'' @ oparam_of e, tobytes (to_dtype cvt Float16 t))])
          (filelist (archive (reformat_quantized cvt params n True)))
     \<and> length (tobytes (to_dtype cvt Float16 t)) = 2 * numel t
     \<and> (dtype t = Int32 \<longrightarrow>
          to_dtype cvt Float16 t = \<lparr>dtype = Float16, elems = map (cvt Int32 Float16) (elems t)\<rparr>)"
proof -
  have d: "dtype (to_dtype cvt Float16 t) = Float16" by (simp add: to_dtype_def)
  have p: "passes cvt params True e"
    using assms(3,4) d by (simp add: passes_def resolve_def)
  have m: "members cvt params True [e] = [(''float16/'' @ oparam_of e, tobytes (to_dtype cvt Float16 t))]"
    using assms(3,4) d by (simp add: members_def member_def List.map_filter_simps resolve_def)
  have s: "paramlist n = (pre @ [e]) @ post" using assms(1) by simp
  have "\<forall>x\<in>set (pre @ [e]). passes cvt params True x" using assms(2) p by simp
  from run_filelist_prefix[OF s this] m
  have f: "prefix (members cvt params True pre
               @ [(''float16/'' @ oparam_of e, tobytes (to_dtype cvt Float16 t))])
          (filelist (archive (reformat_quantized cvt params n True)))"
    by (simp add: members_append)
  have l: "length (tobytes (to_dtype cvt Float16 t)) = 2 * numel t"
    by (simp add: length_tobytes d) (simp add: to_dtype_def numel_def)
  show ?thesis using p f l by (simp add: to_dtype_def)
qed

theorem downcast_any_dtype_witness:
  "prefix [(''float16/embedding.embed'', [1, 0, 2, 0])]
          (filelist (archive (reformat_quantized keep_bits store_i32 0 True)))
   \<and> length (tobytes (to_dtype keep_bits Float16 \<lparr>dtype = Int32, elems = [1, 2]\<rparr>)) = 4"
proof -
  let ?e = "(''model.embed_tokens.weight'', ''embedding.embed'', True, False)"
  let ?post = "[(''model.norm.weight'', ''modelnorm.weights'', True, False),
                (''lm_head.weight'', ''tokenscoring.embed'', True, False)]"
  let ?t = "\<lparr>dtype = Int32, elems = [1, 2]\<rparr>"
  have 1: "paramlist 0 = [] @ ?e # ?post" by (simp add: paramlist_0)
  have 2: "\<forall>x\<in>set []. passes keep_bits store_i32 True x" by simp
  have 3: "castable_of ?e" by (simp add: castable_of_def)
  have 4: "store_i32 (param_of ?e) = Some ?t" by (simp add: store_i32_def param_of_def)
  have 5: "tobytes (to_dtype keep_bits Float16 ?t) = [1, 0, 2, 0]"
    by (simp add: to_dtype_def tobytes_def le_bytes_def keep_bits_def upt_rec drop_bit_eq_div)
  note w = downcast_any_dtype[where params = store_i32 and cvt = keep_bits and pre = "[]", OF 1 2 3 4]
  from w[THEN conjunct2, THEN conjunct1] have a: "prefix [(''float16/embedding.embed'', tobytes (to_dtype keep_bits Float16 ?t))]
          (filelist (archive (reformat_quantized keep_bits store_i32 0 True)))"
    by (simp add: members_Nil oparam_of_def)
  from w[THEN conjunct2, THEN conjunct2, THEN conjunct1] have b: "length (tobytes (to_dtype keep_bits Float16 ?t)) = 4"
    by (simp add: numel_def)
  from a b show ?thesis unfolding 5 by simp
qed

text \<open>
  C7: if the source key of an optional entry is absent from the store, the loop goes on
  with the next entry without writing or printing anything (line 57); no member of the
  archive has that destination name under any of the three type prefixes; and when no
  other entry stops the loop the function ends without a \<open>return False\<close>, prints
  nothing and leaves the closed archive with the members of the other entries.
\<close>

theorem optional_missing_skipped:
  assumes "paramlist n = pre @ e # post"
    and "optional_of e" and "params (param_of e) = None"
  shows "write_loop cvt params downcast (e # post) z out = write_loop cvt params downcast post z out
     \<and> (\<forall>d p. dtype_prefix d = Some p \<longrightarrow>
           p @ oparam_of e \<notin> fst ` set (filelist (archive (reformat_quantized cvt params n downcast))))
     \<and> ((\<forall>x\<in>set (pre @ post). passes cvt params downcast x) \<longrightarrow>
           reformat_quantized cvt params n downcast =
             \<lparr>retval = None,
              archive = \<lparr>filelist = members cvt params downcast (pre @ post), closed = True\<rparr>,
              printed = []\<rparr>)"
proof -
  have pe: "passes cvt params downcast e" using assms(2,3) by (simp add: passes_def)
  have me: "members cvt params downcast [e] = []"
    using assms(3) by (simp add: members_def member_def List.map_filter_simps)
  have a: "write_loop cvt params downcast (e # post) z out = write_loop cvt params downcast post z out"
    using passes_Cons[OF pe, of post z out] me by simp
  have b: "p @ oparam_of e \<notin> fst ` set (filelist (archive (reformat_quantized cvt params n downcast)))"
    if p: "dtype_prefix d = Some p" for d p
  proof
    assume "p @ oparam_of e \<in> fst ` set (filelist (archive (reformat_quantized cvt params n downcast)))"
    then obtain bs where "(p @ oparam_of e, bs) \<in> set (filelist (archive (reformat_quantized cvt params n downcast)))"
      by force
    with run_filelist_subset have "(p @ oparam_of e, bs) \<in> set (members cvt params downcast (paramlist n))"
      by blast
    from member_name[OF this] obtain x d' p' where x: "x \<in> set (paramlist n)"
      and px: "params (param_of x) \<noteq> None" and d': "dtype_prefix d' = Some p'"
      and eq: "p @ oparam_of e = p' @ oparam_of x"
      by blast
    from dtype_prefix_inj[OF p d' eq] have "oparam_of e = oparam_of x" .
    moreover have "e \<in> set (paramlist n)" using assms(1) by simp
    ultimately have "e = x"
      using x distinct_oparams[of n] by (auto simp: distinct_map inj_on_def)
    with px assms(3) show False by simp
  qed
  have c: "reformat_quantized cvt params n downcast =
             \<lparr>retval = None,
              archive = \<lparr>filelist = members cvt params downcast (pre @ post), closed = True\<rparr>,
              printed = []\<rparr>"
    if "\<forall>x\<in>set (pre @ post). passes cvt params downcast x"
  proof -
    from that pe assms(1) have "\<forall>x\<in>set (paramlist n). passes cvt params downcast x" by auto
    from run_all[OF this] have "reformat_quantized cvt params n downcast =
      \<lparr>retval = None, archive = \<lparr>filelist = members cvt params downcast (paramlist n), closed = True\<rparr>,
       printed = []\<rparr>" .
    moreover have "members cvt params downcast (paramlist n) = members cvt params downcast (pre @ post)"
      unfolding assms(1) using members_append[of cvt params downcast pre "e # post"]
        members_append[of cvt params downcast "[e]" post] me
      by (simp add: members_append)
    ultimately show ?thesis by simp
  qed
  from a b c show ?thesis by blast
qed

theorem optional_missing_skipped_witness:
  "reformat_quantized keep_bits store_layer 1 False =
     \<lparr>retval = None,
      archive = \<lparr>filelist = members keep_bits store_layer False
                  (filter (\<lambda>e. param_of e \<noteq> ''model.layers.0.mlp.gate_proj.bias'') (paramlist 1)),
                closed = True\<rparr>,
      printed = []\<rparr>
   \<and> ''float32/dec0gate.bias''
        \<notin> fst ` set (filelist (archive (reformat_quantized keep_bits store_layer 1 False)))"
proof -
  let ?pre = "[(''model.embed_tokens.weight'', ''embedding.embed'', True, False),
     (''model.layers.0.self_attn.q_proj.qweight'', ''dec0att.query.weights'', False, False),
     (''model.layers.0.self_attn.q_proj.scales'', ''dec0att.query.scales'', False, False),
     (''model.layers.0.self_attn.q_proj.qzeros'', ''dec0att.query.zeros'', False, False),
     (''model.layers.0.self_attn.k_proj.qweight'', ''dec0att.key.weights'', False, False),
     (''model.layers.0.self_attn.k_proj.scales'', ''dec0att.key.scales'', False, False),
     (''model.layers.0.self_attn.k_proj.qzeros'', ''dec0att.key.zeros'', False, False),
     (''model.layers.0.self_attn.v_proj.qweight'', ''dec0att.value.weights'', False, False),
     (''model.layers.0.self_attn.v_proj.scales'', ''dec0att.value.scales'', False, False),
     (''model.layers.0.self_attn.v_proj.qzeros'', ''dec0att.value.zeros'', False, False),
     (''model.layers.0.self_attn.o_proj.qweight'', ''dec0att.out.weights'', False, False),
     (''model.layers.0.self_attn.o_proj.scales'', ''dec0att.out.scales'', False, False),
     (''model.layers.0.self_attn.o_proj.qzeros'', ''dec0att.out.zeros'', False, False),
     (''model.layers.0.mlp.gate_proj.qweight'', ''dec0gate.weights'', False, False)]"
  let ?e = "(''model.layers.0.mlp.gate_proj.bias'', ''dec0gate.bias'', False, True)"
  let ?post = "[(''model.layers.0.mlp.gate_proj.scales'', ''dec0gate.scales'', False, False),
     (''model.layers.0.mlp.gate_proj.qzeros'', ''dec0gate.zeros'', False, False),
     (''model.layers.0.mlp.up_proj.qweight'', ''dec0up.weights'', False, False),
     (''model.layers.0.mlp.up_proj.bias'', ''dec0up.bias'', False, True),
     (''model.layers.0.mlp.up_proj.scales'', ''dec0up.scales'', False, False),
     (''model.layers.0.mlp.up_proj.qzeros'', ''dec0up.zeros'', False, False),
     (''model.layers.0.mlp.down_proj.qweight'', ''dec0down.weights'', False, True),
     (''model.layers.0.mlp.down_proj.bias'', ''dec0down.bias'', False, True),
     (''model.layers.0.mlp.down_proj.scales'', ''dec0down.scales'', False, False),
     (''model.layers.0.mlp.down_proj.qzeros'', ''dec0down.zeros'', False, False),
     (''model.layers.0.input_layernorm.weight'', ''dec0ln0.weights'', True, False),
     (''model.layers.0.post_attention_layernorm.weight'', ''dec0ln1.weights'', True, False),
     (''model.norm.weight'', ''modelnorm.weights'', True, False),
     (''lm_head.weight'', ''tokenscoring.embed'', True, False)]"
  have 1: "paramlist 1 = ?pre @ ?e # ?post" by (simp add: paramlist_1)
  have 2: "optional_of ?e" by (simp add: optional_of_def)
  have 3: "store_layer (param_of ?e) = None"
    by (simp add: store_layer_def paramlist_1 optional_of_def param_of_def)
  have 4: "\<forall>x\<in>set (?pre @ ?post). passes keep_bits store_layer False x"
    by (simp add: store_layer_def paramlist_1 optional_of_def param_of_def passes_def
          castable_of_def resolve_def)
  have 5: "filter (\<lambda>e. param_of e \<noteq> ''model.layers.0.mlp.gate_proj.bias'') (paramlist 1) = ?pre @ ?post"
    by (simp add: paramlist_1 param_of_def)
  have 6: "dtype_prefix Float32 = Some ''float32/''" by simp
  note w = optional_missing_skipped[where params = store_layer and cvt = keep_bits
      and downcast = False, OF 1 2 3]
  from w[THEN conjunct2, THEN conjunct2] 4
  have a: "reformat_quantized keep_bits store_layer 1 False =
     \<lparr>retval = None,
      archive = \<lparr>filelist = members keep_bits store_layer False (?pre @ ?post), closed = True\<rparr>,
      printed = []\<rparr>" by blast
  from w[THEN conjunct2, THEN conjunct1] 6
  have "''float32/'' @ oparam_of ?e
        \<notin> fst ` set (filelist (archive (reformat_quantized keep_bits store_layer 1 False)))"
    by blast
  then have b: "''float32/dec0gate.bias''
        \<notin> fst ` set (filelist (archive (reformat_quantized keep_bits store_layer 1 False)))"
    by (simp add: oparam_of_def)
  from a b show ?thesis unfolding 5 by blast
qed

text \<open>
  C6: for a store in which every tensor has element type float32, converted with
  \<open>downcast = True\<close>, the members of the archive are, in the order of the name map,
  those of the entries the loop processes (all of them up to the first mandatory entry
  whose key is absent, the whole name map when there is none): an entry that may be cast
  is written under \<open>float16/\<close> with the bytes of the converted tensor, which are half
  as many as those of the stored tensor, and any other entry under \<open>float32/\<close> with
  the bytes of the stored tensor unchanged.
\<close>

theorem float32_store_downcast:
  assumes "\<forall>k t. params k = Some t \<longrightarrow> dtype t = Float32"
  shows "filelist (archive (reformat_quantized cvt params n True)) =
           List.map_filter (float32_store_member cvt params)
             (takeWhile (\<lambda>e. params (param_of e) \<noteq> None \<or> optional_of e) (paramlist n))
     \<and> (\<forall>k t. params k = Some t \<longrightarrow>
           2 * length (tobytes (to_dtype cvt Float16 t)) = length (tobytes t))"
proof -
  have p: "passes cvt params True e = (params (param_of e) \<noteq> None \<or> optional_of e)" for e
    using assms by (auto simp: passes_def resolve_def to_dtype_def split: option.splits)
  have m: "member cvt params True e = float32_store_member cvt params e" for e
    using assms
    by (auto simp: member_def float32_store_member_def resolve_def to_dtype_def
          split: option.splits)
  have a: "filelist (archive (reformat_quantized cvt params n True)) =
           List.map_filter (float32_store_member cvt params)
             (takeWhile (\<lambda>e. params (param_of e) \<noteq> None \<or> optional_of e) (paramlist n))"
  proof -
    have pf: "passes cvt params True = (\<lambda>e. params (param_of e) \<noteq> None \<or> optional_of e)"
      by (rule ext) (rule p)
    show ?thesis
      unfolding run_filelist pf by (rule members_cong) (rule m)
  qed
  have b: "2 * length (tobytes (to_dtype cvt Float16 t)) = length (tobytes t)"
    if "params k = Some t" for k t
  proof -
    from that assms have "dtype t = Float32" by blast
    then show ?thesis by (simp add: length_tobytes to_dtype_def numel_def)
  qed
  from a b show ?thesis by blast
qed

theorem float32_store_downcast_witness:
  "map fst (filelist (archive (reformat_quantized keep_bits store_layer 1 True))) =
     [''float16/embedding.embed'',
      ''float32/dec0att.query.weights'',
      ''float32/dec0att.query.scales'',
      ''float32/dec0att.query.zeros'',
      ''float32/dec0att.key.weights'',
      ''float32/dec0att.key.scales'',
      ''float32/dec0att.key.zeros'',
      ''float32/dec0att.value.weights'',
      ''float32/dec0att.value.scales'',
      ''float32/dec0att.value.zeros'',
      ''float32/dec0att.out.weights'',
      ''float32/dec0att.out.scales'',
      ''float32/dec0att.out.zeros'',
      ''float32/dec0gate.weights'',
      ''float32/dec0gate.scales'',
      ''float32/dec0gate.zeros'',
      ''float32/dec0up.weights'',
      ''float32/dec0up.scales'',
      ''float32/dec0up.zeros'',
      ''float32/dec0down.scales'',
      ''float32/dec0down.zeros'',
      ''float16/dec0ln0.weights'',
      ''float16/dec0ln1.weights'',
      ''float16/modelnorm.weights'',
      ''float16/tokenscoring.embed'']
   \<and> 2 * length (tobytes (to_dtype keep_bits Float16 \<lparr>dtype = Float32, elems = [1]\<rparr>))
       = length (tobytes \<lparr>dtype = Float32, elems = [1]\<rparr>)"
proof -
  have h: "\<forall>k t. store_layer k = Some t \<longrightarrow> dtype t = Float32"
    by (auto simp: store_layer_def dest!: map_of_SomeD)
  have s: "store_layer ''model.norm.weight'' = Some \<lparr>dtype = Float32, elems = [1]\<rparr>"
    by (simp add: store_layer_def paramlist_1 optional_of_def param_of_def)
  have e: "map fst (List.map_filter (float32_store_member keep_bits store_layer)
             (takeWhile (\<lambda>e. store_layer (param_of e) \<noteq> None \<or> optional_of e) (paramlist 1)))
           = [''float16/embedding.embed'',
      ''float32/dec0att.query.weights'',
      ''float32/dec0att.query.scales'',
      ''float32/dec0att.query.zeros'',
      ''float32/dec0att.key.weights'',
      ''float32/dec0att.key.scales'',
      ''float32/dec0att.key.zeros'',
      ''float32/dec0att.value.weights'',
      ''float32/dec0att.value.scales'',
      ''float32/dec0att.value.zeros'',
      ''float32/dec0att.out.weights'',
      ''float32/dec0att.out.scales'',
      ''float32/dec0att.out.zeros'',
      ''float32/dec0gate.weights'',
      ''float32/dec0gate.scales'',
      ''float32/dec0gate.zeros'',
      ''float32/dec0up.weights'',
      ''float32/dec0up.scales'',
      ''float32/dec0up.zeros'',
      ''float32/dec0down.scales'',
      ''float32/dec0down.zeros'',
      ''float16/dec0ln0.weights'',
      ''float16/dec0ln1.weights'',
      ''float16/modelnorm.weights'',
      ''float16/tokenscoring.embed'']"
    by (simp add: store_layer_def paramlist_1 param_of_def optional_of_def castable_of_def
          oparam_of_def List.map_filter_simps float32_store_member_def)
  note w = float32_store_downcast[OF h, of keep_bits 1]
  from w[THEN conjunct1] e
  have a: "map fst (filelist (archive (reformat_quantized keep_bits store_layer 1 True))) =
     [''float16/embedding.embed'',
      ''float32/dec0att.query.weights'',
      ''float32/dec0att.query.scales'',
      ''float32/dec0att.query.zeros'',
      ''float32/dec0att.key.weights'',
      ''float32/dec0att.key.scales'',
      ''float32/dec0att.key.zeros'',
      ''float32/dec0att.value.weights'',
      ''float32/dec0att.value.scales'',
      ''float32/dec0att.value.zeros'',
      ''float32/dec0att.out.weights'',
      ''float32/dec0att.out.scales'',
      ''float32/dec0att.out.zeros'',
      ''float32/dec0gate.weights'',
      ''float32/dec0gate.scales'',
      ''float32/dec0gate.zeros'',
      ''float32/dec0up.weights'',
      ''float32/dec0up.scales'',
      ''float32/dec0up.zeros'',
      ''float32/dec0down.scales'',
      ''float32/dec0down.zeros'',
      ''float16/dec0ln0.weights'',
      ''float16/dec0ln1.weights'',
      ''float16/modelnorm.weights'',
      ''float16/tokenscoring.embed'']" by simp
  from w[THEN conjunct2] s
  have b: "2 * length (tobytes (to_dtype keep_bits Float16 \<lparr>dtype = Float32, elems = [1]\<rparr>))
       = length (tobytes \<lparr>dtype = Float32, elems = [1]\<rparr>)" by blast
  from a b show ?thesis by blast
qed

end
